theory Spec2Isabelle
  imports Main
begin

section \<open>The upstream client (server/src/services/openverseService.ts)\<close>

text \<open>
  The class \<^verbatim>\<open>OpenverseAPI\<close> keeps two private fields, \<^verbatim>\<open>accessToken\<close>
  (\<^verbatim>\<open>string | null\<close>, initially \<^verbatim>\<open>null\<close>) and \<^verbatim>\<open>tokenExpiresAt\<close> (a number of
  milliseconds, initially 0). Its methods read the clock (\<^verbatim>\<open>Date.now()\<close>), post to the
  token endpoint and hand request configurations to \<^verbatim>\<open>throttledRequest\<close>. The model
  passes a \<open>world\<close> through every method: the two fields, the clock, and a trace of
  the outbound traffic (how many token exchanges were made, which configurations were
  handed to \<^verbatim>\<open>throttledRequest\<close>). JavaScript numbers are modelled as \<open>int\<close>:
  timestamps in milliseconds and \<^verbatim>\<open>expires_in\<close> in seconds are integers.
\<close>

record token_response =
  access_token :: string
  expires_in :: int

record http_response =
  status :: int
  detail :: "string option"

text \<open>
  \<open>http_response\<close> is \<^verbatim>\<open>error.response\<close> of a rejected axios call: its status and
  \<^verbatim>\<open>error.response.data.detail\<close> (\<open>None\<close> when \<^verbatim>\<open>data\<close> or \<^verbatim>\<open>detail\<close> is missing).
  The errors a method of the client can throw:
\<close>

datatype error =
    AxiosError "http_response option"
  | AuthFailed
  | ApiError int string

text \<open>
  \<open>AxiosError r\<close> is the rejection of \<^verbatim>\<open>axios.request\<close> as it reaches the caller
  (\<open>r = None\<close>: no response, a network failure or a timeout); \<open>AuthFailed\<close> is
  \<^verbatim>\<open>new Error('Authentication with Openverse API failed')\<close>; \<open>ApiError s d\<close> is
  \<^verbatim>\<open>new Error(`Openverse API error (${status}): ${detail}`)\<close>.
\<close>

record 'p config =
  http_method :: string
  url :: string
  params :: "'p option"
  timeout :: int
  headers :: "string \<rightharpoonup> string"

record 'p world =
  accessToken :: "string option"
  tokenExpiresAt :: int
  now :: int
  exchanges :: nat
  sent :: "'p config list"

text \<open>
  The network is outside the program. \<open>tokenEndpoint k\<close> is what the \<open>k\<close>-th post to
  the token endpoint brings back: the milliseconds it takes and the response data, or
  \<open>None\<close> when the call is rejected. \<open>transport k c\<close> is what the \<open>k\<close>-th call of
  \<^verbatim>\<open>axios.request\<close> brings back when it is made with configuration \<open>c\<close>: the
  milliseconds it takes and either \<^verbatim>\<open>response.data\<close> or the rejection
  (\<^verbatim>\<open>error.response\<close>, absent on a network failure).
\<close>

record ('p, 'd) upstream =
  tokenEndpoint :: "nat \<Rightarrow> nat \<times> token_response option"
  transport :: "nat \<Rightarrow> 'p config \<Rightarrow> nat \<times> (http_response option + 'd)"

definition API_BASE_URL :: string where
  "API_BASE_URL = ''https://api.openverse.org/v1''"

definition TIMEOUT :: int where
  "TIMEOUT = 10000"

definition exchangeToken :: "('p, 'd) upstream \<Rightarrow> 'p world \<Rightarrow> (error + string) \<times> 'p world" where
  "exchangeToken up w =
     (case tokenEndpoint up (exchanges w) of
        (ms, None) \<Rightarrow>
          (Inl AuthFailed, w\<lparr>now := now w + int ms, exchanges := Suc (exchanges w)\<rparr>)
      | (ms, Some r) \<Rightarrow>
          (Inr (access_token r),
           w\<lparr>accessToken := Some (access_token r),
             tokenExpiresAt := (now w + int ms) + expires_in r * 1000 - 300000,
             now := now w + int ms,
             exchanges := Suc (exchanges w)\<rparr>))"

text \<open>
  \<^verbatim>\<open>getAccessToken\<close>: the guard \<^verbatim>\<open>this.accessToken && Date.now() < this.tokenExpiresAt\<close>
  holds when the field is a non-empty string (\<^verbatim>\<open>null\<close> and \<^verbatim>\<open>''\<close> are falsy) and the
  clock is before the expiry. Otherwise the \<^verbatim>\<open>try\<close> block (\<open>exchangeToken\<close>) runs.
\<close>

definition getAccessToken :: "('p, 'd) upstream \<Rightarrow> 'p world \<Rightarrow> (error + string) \<times> 'p world" where
  "getAccessToken up w =
     (case accessToken w of
        Some tok \<Rightarrow>
          if tok \<noteq> [] \<and> now w < tokenExpiresAt w then (Inr tok, w) else exchangeToken up w
      | None \<Rightarrow> exchangeToken up w)"

definition withBearer :: "'p config \<Rightarrow> string \<Rightarrow> 'p config" where
  "withBearer c token = c\<lparr>headers := (headers c)(''Authorization'' \<mapsto> ''Bearer '' @ token)\<rparr>"

definition createAuthenticatedConfig ::
  "('p, 'd) upstream \<Rightarrow> 'p config \<Rightarrow> 'p world \<Rightarrow> (error + 'p config) \<times> 'p world" where
  "createAuthenticatedConfig up c w =
     (case getAccessToken up w of
        (Inl e, w') \<Rightarrow> (Inl e, w')
      | (Inr token, w') \<Rightarrow> (Inr (withBearer c token), w'))"

text \<open>
  A promise of a response: the time at which it settles, and what it settles with.
  Awaiting it lets the clock reach that time and yields the data or throws the rejection.
\<close>

type_synonym 'd promise = "int \<times> (http_response option + 'd)"

definition await :: "'d promise \<Rightarrow> 'p world \<Rightarrow> (error + 'd) \<times> 'p world" where
  "await p w =
     (case p of
        (t, Inl r) \<Rightarrow> (Inl (AxiosError r), w\<lparr>now := max (now w) t\<rparr>)
      | (t, Inr dat) \<Rightarrow> (Inr dat, w\<lparr>now := max (now w) t\<rparr>))"

subsection \<open>The rate gate\<close>

text \<open>
  Modelled from the spec: \<^verbatim>\<open>throttledRequest\<close> is \<^verbatim>\<open>throttle(f, 1000, { leading: true,
  trailing: true })\<close> around \<^verbatim>\<open>axios.request\<close>, and \<^verbatim>\<open>lodash.throttle\<close> is a library
  that is not part of the sources. The gate below follows section 4.1 of the
  specification. A call that arrives when no cooldown window is open fires at once and
  opens a window of \<open>WAIT\<close> milliseconds. Of the calls that arrive while a window is
  open, the last one received fires at the window boundary, which opens the next window;
  the others are dropped. The specification does not say what a call that does not fire
  is handed: the library hands back the result of the last call that fired, which here is
  that call's promise.

  \<open>Cooldown f p q\<close>: the last call fired at time \<open>f\<close>, \<open>p\<close> is its promise, and \<open>q\<close> is
  the most recent call received since, if there is one. \<open>fired\<close> lists the calls of
  \<^verbatim>\<open>axios.request\<close> so far, each with the time at which it was made.
\<close>

datatype ('p, 'd) cooldown = Idle | Cooldown int "'d promise" "'p config option"

record ('p, 'd) gate =
  cooldown :: "('p, 'd) cooldown"
  fired :: "(int \<times> 'p config) list"

definition WAIT :: int where
  "WAIT = 1000"

definition idle :: "('p, 'd) gate" where
  "idle = \<lparr>cooldown = Idle, fired = []\<rparr>"

text \<open>Modelled from the spec: a call fires, at time \<open>t\<close>; the wrapped function runs.\<close>

definition fire ::
  "('p, 'd) upstream \<Rightarrow> 'p config \<Rightarrow> int \<Rightarrow> ('p, 'd) gate \<Rightarrow> 'd promise \<times> ('p, 'd) gate" where
  "fire up c t g =
     (case transport up (length (fired g)) c of
        (ms, out) \<Rightarrow>
          ((t + int ms, out),
           \<lparr>cooldown = Cooldown t (t + int ms, out) None, fired = fired g @ [(t, c)]\<rparr>))"

text \<open>
  Modelled from the spec: the window boundary. When the clock has reached the end of the
  window and a call is waiting, that call has fired at the boundary.
\<close>

definition settle :: "('p, 'd) upstream \<Rightarrow> int \<Rightarrow> ('p, 'd) gate \<Rightarrow> ('p, 'd) gate" where
  "settle up t g =
     (case cooldown g of
        Cooldown f p (Some c) \<Rightarrow> if f + WAIT \<le> t then snd (fire up c (f + WAIT) g) else g
      | _ \<Rightarrow> g)"

text \<open>
  Modelled from the spec: the throttled function, called with \<open>c\<close> at time \<open>t\<close>. Outside
  a window the call fires; inside a window it replaces the waiting call and is handed the
  promise of the call that fired last.
\<close>

definition throttled ::
  "('p, 'd) upstream \<Rightarrow> 'p config \<Rightarrow> int \<Rightarrow> ('p, 'd) gate \<Rightarrow> 'd promise \<times> ('p, 'd) gate" where
  "throttled up c t g =
     (case cooldown (settle up t g) of
        Idle \<Rightarrow> fire up c t (settle up t g)
      | Cooldown f p q \<Rightarrow>
          if t < f + WAIT then (p, (settle up t g)\<lparr>cooldown := Cooldown f p (Some c)\<rparr>)
          else fire up c t (settle up t g))"

subsection \<open>Requests\<close>

text \<open>
  The client's state is its \<open>world\<close> together with the gate that all its requests
  share (\<^verbatim>\<open>throttledRequest\<close> is one field of the one exported instance).
  \<^verbatim>\<open>this.throttledRequest(authConfig)\<close> is a call of the throttled function at the
  current time; it returns a promise, which the caller then awaits.
\<close>

definition throttledRequest ::
  "('p, 'd) upstream \<Rightarrow> 'p config \<Rightarrow> 'p world \<times> ('p, 'd) gate \<Rightarrow>
     'd promise \<times> 'p world \<times> ('p, 'd) gate" where
  "throttledRequest up c s =
     (case s of
        (w, g) \<Rightarrow>
          (case throttled up c (now w) g of
             (p, g') \<Rightarrow> (p, w\<lparr>sent := sent w @ [c]\<rparr>, g')))"

text \<open>
  \<^verbatim>\<open>makeRequest\<close> is a \<^verbatim>\<open>try\<close> block and a \<^verbatim>\<open>catch\<close> block. \<open>tryBlock\<close> is the
  first: build the authenticated configuration, call the throttled function, await the
  promise, return \<^verbatim>\<open>response.data\<close>. \<open>catchBlock\<close> is the second, branch by branch: an
  error with a response of status 401 or 403 clears the token and runs the same
  statements once more, outside any \<^verbatim>\<open>try\<close>; an error whose response carries a truthy
  \<^verbatim>\<open>detail\<close> is replaced by \<open>ApiError\<close>; every other error is thrown again as it is.
\<close>

definition tryBlock ::
  "('p, 'd) upstream \<Rightarrow> 'p config \<Rightarrow> 'p world \<times> ('p, 'd) gate \<Rightarrow>
     (error + 'd) \<times> 'p world \<times> ('p, 'd) gate" where
  "tryBlock up c s =
     (case s of
        (w, g) \<Rightarrow>
          (case createAuthenticatedConfig up c w of
             (Inl e, w1) \<Rightarrow> (Inl e, w1, g)
           | (Inr authConfig, w1) \<Rightarrow>
               (case throttledRequest up authConfig (w1, g) of
                  (p, w2, g2) \<Rightarrow>
                    (case await p w2 of
                       (r, w3) \<Rightarrow> (r, w3, g2)))))"

definition catchBlock ::
  "('p, 'd) upstream \<Rightarrow> 'p config \<Rightarrow> error \<Rightarrow> 'p world \<times> ('p, 'd) gate \<Rightarrow>
     (error + 'd) \<times> 'p world \<times> ('p, 'd) gate" where
  "catchBlock up c e s =
     (case s of
        (w, g) \<Rightarrow>
          (case e of
             AxiosError (Some r) \<Rightarrow>
               if status r = 401 \<or> status r = 403
               then (case createAuthenticatedConfig up c (w\<lparr>accessToken := None\<rparr>) of
                       (Inl e', w1) \<Rightarrow> (Inl e', w1, g)
                     | (Inr authConfig, w1) \<Rightarrow>
                         (case throttledRequest up authConfig (w1, g) of
                            (p, w2, g2) \<Rightarrow>
                              (case await p w2 of
                                 (r', w3) \<Rightarrow> (r', w3, g2))))
               else (case detail r of
                       Some d \<Rightarrow>
                         if d \<noteq> [] then (Inl (ApiError (status r) d), w, g) else (Inl e, w, g)
                     | None \<Rightarrow> (Inl e, w, g))
           | _ \<Rightarrow> (Inl e, w, g)))"

definition makeRequest ::
  "('p, 'd) upstream \<Rightarrow> 'p config \<Rightarrow> 'p world \<times> ('p, 'd) gate \<Rightarrow>
     (error + 'd) \<times> 'p world \<times> ('p, 'd) gate" where
  "makeRequest up c s =
     (case tryBlock up c s of
        (Inr d, s') \<Rightarrow> (Inr d, s')
      | (Inl e, s') \<Rightarrow> catchBlock up c e s')"




text \<open>The \<^verbatim>\<open>Authorization\<close> header of each call made, with the time of the call.\<close>

definition authorizations :: "('p, 'd) gate \<Rightarrow> (int \<times> string option) list" where
  "authorizations g = map (\<lambda>x. (fst x, headers (snd x) ''Authorization'')) (fired g)"

section \<open>The persistence layer (server/src/models/User.ts, SearchHistory.ts)\<close>

text \<open>
  The two Sequelize models, as the rows their tables hold. \<open>uid\<close> and \<open>hid\<close> are the
  \<^verbatim>\<open>id\<close> columns of \<^verbatim>\<open>users\<close> and \<^verbatim>\<open>search_histories\<close>; the timestamps of a
  search-history row are \<open>h_createdAt\<close> and \<open>h_updatedAt\<close>. Dates are milliseconds.
  \<^verbatim>\<open>filters\<close> (a JSONB column) holds the request's remaining query parameters.
  \<^verbatim>\<open>mediaType\<close> is a string at run time; the column admits \<open>mediaType_values\<close>.
\<close>

record User =
  uid :: string
  username :: string
  email :: string
  password :: string
  firstName :: "string option"
  lastName :: "string option"
  isActive :: bool
  lastLogin :: "int option"
  createdAt :: int
  updatedAt :: int

record SearchHistory =
  hid :: string
  userId :: string
  query :: string
  filters :: "(string \<times> string) list"
  mediaType :: string
  resultCount :: int
  h_createdAt :: int
  h_updatedAt :: int

record db =
  users :: "User list"
  histories :: "SearchHistory list"

definition mediaType_values :: "string list" where
  "mediaType_values = [''image'', ''audio'', ''video'', ''all'']"

text \<open>
  The libraries the models and the controllers call are parameters of the model:
  \<^verbatim>\<open>validator.isEmail\<close> behind \<^verbatim>\<open>validate: { isEmail: true }\<close>, bcryptjs
  (\<^verbatim>\<open>genSalt\<close>, \<^verbatim>\<open>hash\<close>, \<^verbatim>\<open>compare\<close>), jsonwebtoken (\<^verbatim>\<open>sign\<close> with the payload
  \<^verbatim>\<open>{ id }\<close>, the secret and \<^verbatim>\<open>expiresIn: '7d'\<close>; \<^verbatim>\<open>verify\<close> with the secret), the id
  that \<^verbatim>\<open>DataTypes.UUIDV4\<close> generates for the next row, and the clock behind
  \<^verbatim>\<open>new Date()\<close> and \<^verbatim>\<open>DataTypes.NOW\<close>. \<^verbatim>\<open>jwt.verify\<close> returns the payload's id or
  throws; the middleware tells a \<^verbatim>\<open>JsonWebTokenError\<close> from any other exception.
  \<open>uuid_in\<close> is how the store reads a text that is compared with a \<^verbatim>\<open>DataTypes.UUID\<close>
  column: \<open>None\<close> when the text is not a uuid (the query is then refused), otherwise the
  spelling in which the store keeps that uuid. Strings are texts of one-byte
  characters, so that a length in characters and a length in bytes agree.
\<close>

datatype jwt_outcome = Decoded string | JsonWebTokenError | OtherException

record env =
  isEmail :: "string \<Rightarrow> bool"
  bcrypt_genSalt :: "nat \<Rightarrow> string"
  bcrypt_hash :: "string \<Rightarrow> string \<Rightarrow> string"
  bcrypt_compare :: "string \<Rightarrow> string \<Rightarrow> bool"
  jwt_sign :: "string \<Rightarrow> string"
  jwt_verify :: "string \<Rightarrow> jwt_outcome"
  uuidv4 :: string
  uuid_in :: "string \<Rightarrow> string option"
  clock :: int

datatype db_error =
  ValidationFailed | UniqueViolation | InvalidEnumValue | QueryRejected
  | ValueTooLong | OutOfRange | InvalidUuid

subsection \<open>User: instance methods and hooks\<close>

definition comparePassword :: "env \<Rightarrow> User \<Rightarrow> string \<Rightarrow> bool" where
  "comparePassword e u candidatePassword = bcrypt_compare e candidatePassword (password u)"

datatype jvalue = JString string | JBool bool | JDate int | JNull

type_synonym jobject = "(string \<times> jvalue) list"

definition optional :: "('a \<Rightarrow> jvalue) \<Rightarrow> 'a option \<Rightarrow> jvalue" where
  "optional f x = (case x of None \<Rightarrow> JNull | Some v \<Rightarrow> f v)"

text \<open>\<open>dataValues u\<close> is \<^verbatim>\<open>this.get()\<close>: every attribute of the row, by name.\<close>

definition dataValues :: "User \<Rightarrow> jobject" where
  "dataValues u =
     [(''id'', JString (uid u)),
      (''username'', JString (username u)),
      (''email'', JString (email u)),
      (''password'', JString (password u)),
      (''firstName'', optional JString (firstName u)),
      (''lastName'', optional JString (lastName u)),
      (''isActive'', JBool (isActive u)),
      (''lastLogin'', optional JDate (lastLogin u)),
      (''createdAt'', JDate (createdAt u)),
      (''updatedAt'', JDate (updatedAt u))]"

text \<open>\<^verbatim>\<open>toJSON\<close>: copy the values, \<^verbatim>\<open>delete values.password\<close>, return the copy.\<close>

definition toJSON :: "User \<Rightarrow> jobject" where
  "toJSON u = filter (\<lambda>kv. fst kv \<noteq> ''password'') (dataValues u)"

text \<open>
  The hooks. \<^verbatim>\<open>beforeCreate\<close> hashes when \<^verbatim>\<open>user.password\<close> is truthy (a non-empty
  string); \<^verbatim>\<open>beforeUpdate\<close> hashes when \<^verbatim>\<open>user.changed('password')\<close>.
\<close>

definition beforeCreate :: "env \<Rightarrow> User \<Rightarrow> User" where
  "beforeCreate e u =
     (if password u \<noteq> []
      then u\<lparr>password := bcrypt_hash e (password u) (bcrypt_genSalt e 10)\<rparr>
      else u)"

definition beforeUpdate :: "env \<Rightarrow> bool \<Rightarrow> User \<Rightarrow> User" where
  "beforeUpdate e changed_password u =
     (if changed_password
      then u\<lparr>password := bcrypt_hash e (password u) (bcrypt_genSalt e 10)\<rparr>
      else u)"

subsection \<open>User: create, update, find\<close>

record register_body =
  reg_username :: string
  reg_email :: string
  reg_password :: string
  reg_firstName :: "string option"
  reg_lastName :: "string option"

text \<open>
  \<^verbatim>\<open>User.create\<close>: build the row with the defaults of \<^verbatim>\<open>User.init\<close> (a fresh id,
  \<^verbatim>\<open>isActive: true\<close>, both timestamps now), run the validators (\<^verbatim>\<open>len: [3, 50]\<close> on the
  username, \<^verbatim>\<open>isEmail\<close> on the email), run \<^verbatim>\<open>beforeCreate\<close>, insert. The insert is
  refused when a value is longer than its column (\<^verbatim>\<open>STRING(100)\<close> for the email,
  \<^verbatim>\<open>STRING(50)\<close> for the two names) and when the primary key or one of the two
  \<^verbatim>\<open>unique: true\<close> columns is taken. The password column (\<^verbatim>\<open>STRING\<close>, 255
  characters) receives what the hook leaves: a hash, 60 characters with bcrypt, or the
  empty string.
\<close>

definition too_long :: "nat \<Rightarrow> string option \<Rightarrow> bool" where
  "too_long n x = (case x of None \<Rightarrow> False | Some v \<Rightarrow> n < length v)"

definition User_create :: "env \<Rightarrow> db \<Rightarrow> register_body \<Rightarrow> db_error + (User \<times> db)" where
  "User_create e d b =
     (let u = \<lparr>uid = uuidv4 e, username = reg_username b, email = reg_email b,
               password = reg_password b, firstName = reg_firstName b,
               lastName = reg_lastName b, isActive = True, lastLogin = None,
               createdAt = clock e, updatedAt = clock e\<rparr>
      in if length (username u) < 3 \<or> 50 < length (username u) \<or> \<not> isEmail e (email u)
         then Inl ValidationFailed
         else (let u' = beforeCreate e u
               in if 100 < length (email u')
                     \<or> too_long 50 (firstName u') \<or> too_long 50 (lastName u')
                  then Inl ValueTooLong
                  else (case find (\<lambda>r. uid r = uid u' \<or> username r = username u'
                                       \<or> email r = email u') (users d) of
                          Some r \<Rightarrow> Inl UniqueViolation
                        | None \<Rightarrow> Inr (u', d\<lparr>users := users d @ [u']\<rparr>))))"

text \<open>
  \<^verbatim>\<open>user.update(values)\<close> with the two sets of values the controllers pass:
  \<^verbatim>\<open>{ lastLogin: new Date() }\<close> and \<^verbatim>\<open>{ password: newPassword }\<close>. An attribute counts
  as changed when the new value differs from the stored one; \<^verbatim>\<open>beforeUpdate\<close> runs on
  the instance carrying the new values, and the row with the instance's id is written.
  Neither value can be refused for its length: the password column receives the hash.
\<close>

record user_values =
  set_password :: "string option"
  set_lastLogin :: "int option"

definition User_update :: "env \<Rightarrow> db \<Rightarrow> User \<Rightarrow> user_values \<Rightarrow> User \<times> db" where
  "User_update e d u v =
     (let changed_password = (case set_password v of None \<Rightarrow> False | Some p \<Rightarrow> p \<noteq> password u);
          u1 = (case set_password v of None \<Rightarrow> u | Some p \<Rightarrow> u\<lparr>password := p\<rparr>);
          u2 = (case set_lastLogin v of None \<Rightarrow> u1 | Some t \<Rightarrow> u1\<lparr>lastLogin := Some t\<rparr>);
          u3 = (beforeUpdate e changed_password u2)\<lparr>updatedAt := clock e\<rparr>
      in (u3, d\<lparr>users := map (\<lambda>r. if uid r = uid u3 then u3 else r) (users d)\<rparr>))"

definition findByPk :: "db \<Rightarrow> string \<Rightarrow> User option" where
  "findByPk d i = find (\<lambda>r. uid r = i) (users d)"

subsection \<open>SearchHistory: create\<close>

text \<open>
  \<^verbatim>\<open>SearchHistory.create\<close>: a fresh id, both timestamps now, and the values given. The
  store refuses the row, and \<^verbatim>\<open>create\<close> throws, when a value does not fit its column:
  \<^verbatim>\<open>mediaType\<close> is \<^verbatim>\<open>ENUM('image', 'audio', 'video', 'all')\<close>, \<^verbatim>\<open>query\<close> is \<^verbatim>\<open>STRING\<close>
  (at most 255 characters) and \<^verbatim>\<open>resultCount\<close> is \<^verbatim>\<open>INTEGER\<close> (32 bits, signed).
\<close>

definition SearchHistory_create ::
  "env \<Rightarrow> db \<Rightarrow> string \<Rightarrow> string \<Rightarrow> (string \<times> string) list \<Rightarrow> string \<Rightarrow> int \<Rightarrow> db_error + db" where
  "SearchHistory_create e d user_id qry fltrs mt cnt =
     (if mt \<notin> set mediaType_values then Inl InvalidEnumValue
      else if 255 < length qry then Inl ValueTooLong
      else if cnt < - 2147483648 \<or> 2147483647 < cnt then Inl OutOfRange
      else Inr (d\<lparr>histories := histories d @
                  [\<lparr>hid = uuidv4 e, userId = user_id, query = qry, filters = fltrs,
                    mediaType = mt, resultCount = cnt,
                    h_createdAt = clock e, h_updatedAt = clock e\<rparr>]\<rparr>))"

section \<open>Requests and responses\<close>

text \<open>
  What a handler sends with \<^verbatim>\<open>res.status(n).json(body)\<close> (status 200 when it calls
  \<^verbatim>\<open>res.json\<close> alone). The bodies, by shape: \<^verbatim>\<open>{ message }\<close>;
  \<^verbatim>\<open>{ message, error }\<close>, where \<^verbatim>\<open>error\<close> is the message of the exception caught;
  \<^verbatim>\<open>{ errors }\<close>, the array of \<^verbatim>\<open>validationResult(req)\<close>; a search result;
  \<^verbatim>\<open>{ total, page, pageSize, pages, history }\<close>; \<^verbatim>\<open>{ token, user }\<close>; \<^verbatim>\<open>{ user }\<close>.
\<close>

record 'a SearchResult =
  result_count :: int
  page_count :: int
  page_size :: int
  page :: int
  results :: "'a list"

datatype failure = UpstreamFailure error | StoreFailure db_error

datatype 'a body =
    Message string
  | Failure string failure
  | Errors "string list"
  | Results "'a SearchResult"
  | HistoryPage int int int "int option" "SearchHistory list"
  | Session string jobject
  | CurrentUser jobject

record 'a response =
  statusCode :: nat
  json :: "'a body"

record request =
  req_authorization :: "string option"
  req_user :: "User option"
  req_token :: "string option"

datatype 'a step = Respond "'a response" | Next request

text \<open>The user object a body carries, if it carries one.\<close>

definition bodyUser :: "'a body \<Rightarrow> jobject option" where
  "bodyUser b = (case b of Session t obj \<Rightarrow> Some obj | CurrentUser obj \<Rightarrow> Some obj | _ \<Rightarrow> None)"

section \<open>The authentication middleware (server/src/middlewares/authMiddleware.ts)\<close>

definition startsWith :: "string \<Rightarrow> string \<Rightarrow> bool" where
  "startsWith s p = (take (length p) s = p)"

text \<open>\<^verbatim>\<open>s.split(c)\<close> for a one-character separator; \<^verbatim>\<open>''.split(c)\<close> is \<^verbatim>\<open>['']\<close>.\<close>

fun split :: "char \<Rightarrow> string \<Rightarrow> string list" where
  "split c [] = [[]]"
| "split c (x # xs) =
     (if x = c then [] # split c xs
      else (case split c xs of
              [] \<Rightarrow> [[x]]
            | y # ys \<Rightarrow> (x # y) # ys))"

text \<open>\<^verbatim>\<open>parts[1]\<close>: \<^verbatim>\<open>undefined\<close> when the array has fewer than two elements.\<close>

definition second :: "'a list \<Rightarrow> 'a option" where
  "second parts = (if 1 < length parts then Some (parts ! 1) else None)"

definition reject :: "nat \<Rightarrow> string \<Rightarrow> 'a step" where
  "reject n msg = Respond \<lparr>statusCode = n, json = Message msg\<rparr>"

definition authenticate :: "env \<Rightarrow> db \<Rightarrow> request \<Rightarrow> 'a step" where
  "authenticate e d req =
     (case req_authorization req of
        None \<Rightarrow> reject 401 ''Authentication required''
      | Some authHeader \<Rightarrow>
          if authHeader = [] \<or> \<not> startsWith authHeader ''Bearer ''
          then reject 401 ''Authentication required''
          else (case second (split CHR '' '' authHeader) of
                  None \<Rightarrow> reject 401 ''Invalid token format''
                | Some tok \<Rightarrow>
                    if tok = [] then reject 401 ''Invalid token format''
                    else (case jwt_verify e tok of
                            JsonWebTokenError \<Rightarrow> reject 401 ''Invalid token''
                          | OtherException \<Rightarrow> reject 500 ''Authentication error''
                          | Decoded i \<Rightarrow>
                              (case findByPk d i of
                                 None \<Rightarrow> reject 401 ''User not found''
                               | Some u \<Rightarrow>
                                   if \<not> isActive u then reject 403 ''Account is disabled''
                                   else Next (req\<lparr>req_user := Some u, req_token := Some tok\<rparr>)))))"

section \<open>The authentication controller (server/src/controllers/authController.ts)\<close>

definition generateToken :: "env \<Rightarrow> string \<Rightarrow> string" where
  "generateToken e userId' = jwt_sign e userId'"

definition lastLoginNow :: "env \<Rightarrow> user_values" where
  "lastLoginNow e = \<lparr>set_password = None, set_lastLogin = Some (clock e)\<rparr>"

text \<open>
  \<^verbatim>\<open>register\<close> builds the query of \<^verbatim>\<open>User.findOne\<close> with the key
  \<^verbatim>\<open>[sequelize.Op.or]\<close> over the two equalities \<^verbatim>\<open>{ email }\<close> and \<^verbatim>\<open>{ username }\<close>.
  \<^verbatim>\<open>sequelize\<close> there is the connection that \<^verbatim>\<open>config/database.ts\<close> exports,
  \<^verbatim>\<open>new Sequelize(...)\<close>. The operators are a property of the library's module and of
  the class \<^verbatim>\<open>Sequelize\<close>, not of a connection: \<open>sequelize_Op\<close>, the value of
  \<^verbatim>\<open>sequelize.Op\<close>, is \<^verbatim>\<open>undefined\<close>, and reading \<^verbatim>\<open>.or\<close> from it throws a
  \<^verbatim>\<open>TypeError\<close> inside the \<^verbatim>\<open>try\<close> block, before \<^verbatim>\<open>findOne\<close> is called. That
  exception, like one of \<^verbatim>\<open>User.create\<close>, lands in the \<^verbatim>\<open>catch\<close> block: status 500.
\<close>

definition sequelize_Op :: "unit option" where
  "sequelize_Op = None"

definition register :: "env \<Rightarrow> db \<Rightarrow> string list \<Rightarrow> register_body \<Rightarrow> 'a response \<times> db" where
  "register e d errs b =
     (if errs \<noteq> [] then (\<lparr>statusCode = 400, json = Errors errs\<rparr>, d)
      else (case sequelize_Op of
              None \<Rightarrow> (\<lparr>statusCode = 500, json = Message ''Server error''\<rparr>, d)
            | Some Op \<Rightarrow>
                (case find (\<lambda>r. email r = reg_email b \<or> username r = reg_username b) (users d) of
                   Some existingUser \<Rightarrow>
                     (\<lparr>statusCode = 400, json = Message ''User already exists''\<rparr>, d)
                 | None \<Rightarrow>
                     (case User_create e d b of
                        Inl err \<Rightarrow> (\<lparr>statusCode = 500, json = Message ''Server error''\<rparr>, d)
                      | Inr (u, d1) \<Rightarrow>
                          (let tok = generateToken e (uid u);
                               (u', d2) = User_update e d1 u (lastLoginNow e)
                           in (\<lparr>statusCode = 201, json = Session tok (toJSON u')\<rparr>, d2))))))"

record login_body =
  login_email :: string
  login_password :: string

definition login :: "env \<Rightarrow> db \<Rightarrow> string list \<Rightarrow> login_body \<Rightarrow> 'a response \<times> db" where
  "login e d errs b =
     (if errs \<noteq> [] then (\<lparr>statusCode = 400, json = Errors errs\<rparr>, d)
      else (case find (\<lambda>r. email r = login_email b) (users d) of
              None \<Rightarrow> (\<lparr>statusCode = 401, json = Message ''Invalid credentials''\<rparr>, d)
            | Some u \<Rightarrow>
                if \<not> isActive u
                then (\<lparr>statusCode = 403, json = Message ''Account is disabled''\<rparr>, d)
                else if \<not> comparePassword e u (login_password b)
                then (\<lparr>statusCode = 401, json = Message ''Invalid credentials''\<rparr>, d)
                else (let tok = generateToken e (uid u);
                          (u', d') = User_update e d u (lastLoginNow e)
                      in (\<lparr>statusCode = 200, json = Session tok (toJSON u')\<rparr>, d'))))"

definition getCurrentUser :: "request \<Rightarrow> 'a response" where
  "getCurrentUser req =
     (case req_user req of
        None \<Rightarrow> \<lparr>statusCode = 401, json = Message ''Authentication required''\<rparr>
      | Some u \<Rightarrow> \<lparr>statusCode = 200, json = CurrentUser (toJSON u)\<rparr>)"

record password_body =
  currentPassword :: string
  newPassword :: string

definition changePassword ::
  "env \<Rightarrow> db \<Rightarrow> string list \<Rightarrow> request \<Rightarrow> password_body \<Rightarrow> 'a response \<times> db" where
  "changePassword e d errs req b =
     (if errs \<noteq> [] then (\<lparr>statusCode = 400, json = Errors errs\<rparr>, d)
      else (case req_user req of
              None \<Rightarrow> (\<lparr>statusCode = 401, json = Message ''Authentication required''\<rparr>, d)
            | Some u \<Rightarrow>
                if \<not> comparePassword e u (currentPassword b)
                then (\<lparr>statusCode = 401, json = Message ''Current password is incorrect''\<rparr>, d)
                else (let (u', d') = User_update e d u
                                       \<lparr>set_password = Some (newPassword b), set_lastLogin = None\<rparr>
                      in (\<lparr>statusCode = 200, json = Message ''Password updated successfully''\<rparr>, d'))))"

section \<open>The search controller (server/src/controllers/searchController.ts)\<close>

text \<open>
  The controller sees the client through \<^verbatim>\<open>openverseAPI.searchImages\<close> and
  \<^verbatim>\<open>openverseAPI.searchAudio\<close>: each takes the search parameters and resolves to a
  result or rejects. What the two resolve to is an input of the handler here; in the
  running program both are \<open>makeRequest\<close> on the one client, behind its one rate gate.
  \<open>issued\<close> below lists the calls a request makes. The parameters are an object, kept
  as the list of its entries in insertion order.
\<close>

datatype pvalue = PString string | PNumber int | PBoolean bool

type_synonym SearchParams = "(string \<times> pvalue) list"

record 'a api =
  searchImages :: "SearchParams \<Rightarrow> error + 'a SearchResult"
  searchAudio :: "SearchParams \<Rightarrow> error + 'a SearchResult"

datatype call = ImageSearch SearchParams | AudioSearch SearchParams

text \<open>\<^verbatim>\<open>obj[k] = v\<close>: overwrite in place, or add the entry at the end.\<close>

fun assign :: "string \<Rightarrow> 'v \<Rightarrow> (string \<times> 'v) list \<Rightarrow> (string \<times> 'v) list" where
  "assign k v [] = [(k, v)]"
| "assign k v ((k', v') # kvs) = (if k' = k then (k, v) # kvs else (k', v') # assign k v kvs)"

definition filterMappings :: "(string \<times> string) list" where
  "filterMappings =
     [(''licenseType'', ''license_type''),
      (''aspectRatio'', ''aspect_ratio''),
      (''filterDead'', ''filter_dead'')]"

definition formatFilters :: "(string \<times> string) list \<Rightarrow> SearchParams" where
  "formatFilters fltrs =
     fold (\<lambda>(key, v) formattedFilters.
             (let processedValue = (if v = ''true'' then PBoolean True
                                    else if v = ''false'' then PBoolean False
                                    else PString v);
                  apiKey = (case map_of filterMappings key of Some k \<Rightarrow> k | None \<Rightarrow> key)
              in assign apiKey processedValue formattedFilters))
          fltrs []"

text \<open>
  \<^verbatim>\<open>req.query\<close> after destructuring: \<^verbatim>\<open>query\<close>, \<^verbatim>\<open>page\<close> and \<^verbatim>\<open>pageSize\<close> (absent, or
  the integer that \<^verbatim>\<open>Number\<close> makes of the parameter), \<^verbatim>\<open>mediaType\<close> (absent, or any
  string) and the remaining parameters, \<^verbatim>\<open>filters\<close>.
\<close>

record search_query =
  q_query :: string
  q_page :: "int option"
  q_pageSize :: "int option"
  q_mediaType :: "string option"
  q_filters :: "(string \<times> string) list"

definition orDefault :: "'a option \<Rightarrow> 'a \<Rightarrow> 'a" where
  "orDefault x dflt = (case x of None \<Rightarrow> dflt | Some v \<Rightarrow> v)"

definition buildSearchParams :: "search_query \<Rightarrow> SearchParams" where
  "buildSearchParams q =
     fold (\<lambda>(k, v) ps. assign k v ps) (formatFilters (q_filters q))
       [(''q'', PString (q_query q)),
        (''page'', PNumber (orDefault (q_page q) 1)),
        (''page_size'', PNumber (orDefault (q_pageSize q) 20))]"

text \<open>
  The \<^verbatim>\<open>switch (mediaType)\<close>: the calls it issues and, when none rejects, the object
  \<^verbatim>\<open>results\<close> with the number \<^verbatim>\<open>resultCount\<close>. \<^verbatim>\<open>case 'all'\<close> and \<^verbatim>\<open>default\<close> share one
  body: \<^verbatim>\<open>Promise.all\<close> starts both searches and rejects when one of them does (when
  both do, the rejection kept here is the image search's).
\<close>

definition executeSearch ::
  "'a api \<Rightarrow> string \<Rightarrow> int \<Rightarrow> int \<Rightarrow> SearchParams \<Rightarrow> call list \<times> (error + 'a SearchResult \<times> int)" where
  "executeSearch a mt pg pgSize searchParams =
     (if mt = ''image''
      then ([ImageSearch searchParams],
            case searchImages a searchParams of
              Inl err \<Rightarrow> Inl err
            | Inr res \<Rightarrow> Inr (res, result_count res))
      else if mt = ''audio''
      then ([AudioSearch searchParams],
            case searchAudio a searchParams of
              Inl err \<Rightarrow> Inl err
            | Inr res \<Rightarrow> Inr (res, result_count res))
      else ([ImageSearch searchParams, AudioSearch searchParams],
            case searchImages a searchParams of
              Inl err \<Rightarrow> Inl err
            | Inr imageResults \<Rightarrow>
                (case searchAudio a searchParams of
                   Inl err \<Rightarrow> Inl err
                 | Inr audioResults \<Rightarrow>
                     (let cnt = result_count imageResults + result_count audioResults
                      in Inr (\<lparr>result_count = cnt,
                                page_count = max (page_count imageResults) (page_count audioResults),
                                page_size = pgSize,
                                page = pg,
                                results = results imageResults @ results audioResults\<rparr>,
                              cnt)))))"

definition searchMedia ::
  "env \<Rightarrow> 'a api \<Rightarrow> db \<Rightarrow> string list \<Rightarrow> search_query \<Rightarrow> request \<Rightarrow> 'a response \<times> db \<times> call list" where
  "searchMedia e a d errs q req =
     (if errs \<noteq> [] then (\<lparr>statusCode = 400, json = Errors errs\<rparr>, d, [])
      else (let mt = orDefault (q_mediaType q) ''all'';
                searchParams = buildSearchParams q
            in case executeSearch a mt (orDefault (q_page q) 1) (orDefault (q_pageSize q) 20)
                      searchParams of
                 (issued, Inl err) \<Rightarrow>
                   (\<lparr>statusCode = 500, json = Failure ''Search failed'' (UpstreamFailure err)\<rparr>,
                    d, issued)
               | (issued, Inr (res, cnt)) \<Rightarrow>
                   (case req_user req of
                      None \<Rightarrow> (\<lparr>statusCode = 200, json = Results res\<rparr>, d, issued)
                    | Some u \<Rightarrow>
                        (case SearchHistory_create e d (uid u) (q_query q) (q_filters q) mt cnt of
                           Inl err \<Rightarrow>
                             (\<lparr>statusCode = 500,
                               json = Failure ''Search failed'' (StoreFailure err)\<rparr>,
                              d, issued)
                         | Inr d' \<Rightarrow> (\<lparr>statusCode = 200, json = Results res\<rparr>, d', issued)))))"

text \<open>
  \<^verbatim>\<open>getSearchHistory\<close>: \<^verbatim>\<open>findAndCountAll\<close> with \<^verbatim>\<open>where: { userId }\<close>, newest first,
  \<^verbatim>\<open>limit\<close> and \<^verbatim>\<open>offset\<close>. \<open>count\<close> is the number of matching rows before the page is
  cut. The store refuses a negative limit or offset (status 500). Rows with equal
  \<^verbatim>\<open>createdAt\<close> come in the order the store holds them. \<^verbatim>\<open>Math.ceil(count / 0)\<close> is not
  a finite number and serialises as \<^verbatim>\<open>null\<close>.
\<close>

definition getSearchHistory :: "db \<Rightarrow> request \<Rightarrow> int option \<Rightarrow> int option \<Rightarrow> 'a response" where
  "getSearchHistory d req pg pgSize =
     (case req_user req of
        None \<Rightarrow> \<lparr>statusCode = 401, json = Message ''Authentication required''\<rparr>
      | Some u \<Rightarrow>
          (let pageNum = orDefault pg 1;
               pageSizeNum = orDefault pgSize 20;
               matching = filter (\<lambda>r. userId r = uid u) (histories d);
               cnt = int (length matching);
               ordered = sort_key (\<lambda>r. - h_createdAt r) matching;
               offset = (pageNum - 1) * pageSizeNum
           in if pageSizeNum < 0 \<or> offset < 0
              then \<lparr>statusCode = 500,
                    json = Failure ''Failed to get search history'' (StoreFailure QueryRejected)\<rparr>
              else \<lparr>statusCode = 200,
                    json = HistoryPage cnt pageNum pageSizeNum
                             (if pageSizeNum = 0 then None
                              else Some ((cnt + pageSizeNum - 1) div pageSizeNum))
                             (take (nat pageSizeNum) (drop (nat offset) ordered))\<rparr>))"

text \<open>
  \<^verbatim>\<open>deleteSearchHistoryItem\<close>: \<^verbatim>\<open>findOne\<close> with \<^verbatim>\<open>where: { id, userId }\<close>, where
  \<^verbatim>\<open>id\<close> is \<^verbatim>\<open>req.params.id\<close>, any text. The store compares it with the \<^verbatim>\<open>id\<close>
  column as a uuid: for a text that is not one the query is refused, \<^verbatim>\<open>findOne\<close>
  throws, and the \<^verbatim>\<open>catch\<close> block answers 500. Without a row, status 404; with one,
  \<^verbatim>\<open>searchItem.destroy()\<close> deletes by the row's primary key.
\<close>

definition deleteSearchHistoryItem ::
  "env \<Rightarrow> db \<Rightarrow> request \<Rightarrow> string \<Rightarrow> 'a response \<times> db" where
  "deleteSearchHistoryItem e d req i =
     (case req_user req of
        None \<Rightarrow> (\<lparr>statusCode = 401, json = Message ''Authentication required''\<rparr>, d)
      | Some u \<Rightarrow>
          (case uuid_in e i of
             None \<Rightarrow>
               (\<lparr>statusCode = 500,
                 json = Failure ''Failed to delete search history item'' (StoreFailure InvalidUuid)\<rparr>,
                d)
           | Some i' \<Rightarrow>
               (case find (\<lambda>r. hid r = i' \<and> userId r = uid u) (histories d) of
                  None \<Rightarrow>
                    (\<lparr>statusCode = 404, json = Message ''Search history item not found''\<rparr>, d)
                | Some searchItem \<Rightarrow>
                    (\<lparr>statusCode = 200, json = Message ''Search history item deleted''\<rparr>,
                     d\<lparr>histories := filter (\<lambda>r. hid r \<noteq> hid searchItem) (histories d)\<rparr>))))"

text \<open>\<^verbatim>\<open>clearSearchHistory\<close>: \<^verbatim>\<open>SearchHistory.destroy\<close> with \<^verbatim>\<open>where: { userId }\<close>.\<close>

definition clearSearchHistory :: "db \<Rightarrow> request \<Rightarrow> 'a response \<times> db" where
  "clearSearchHistory d req =
     (case req_user req of
        None \<Rightarrow> (\<lparr>statusCode = 401, json = Message ''Authentication required''\<rparr>, d)
      | Some u \<Rightarrow>
          (\<lparr>statusCode = 200, json = Message ''Search history cleared''\<rparr>,
           d\<lparr>histories := filter (\<lambda>r. userId r \<noteq> uid u) (histories d)\<rparr>))"

section \<open>Sample inputs\<close>

text \<open>
  Concrete collaborators and stores on which the theorems below are instantiated: a
  token endpoint that issues \<^verbatim>\<open>tok\<close>, \<^verbatim>\<open>tok+\<close>, ... valid for twelve hours and answers
  in 120 ms, an upstream that answers in 80 ms, the first request with 401 and every
  later one with data, and a client that has not yet fetched a token.
\<close>

definition demo_upstream :: "(unit, string) upstream" where
  "demo_upstream =
     \<lparr>tokenEndpoint =
        (\<lambda>k. (120, Some \<lparr>access_token = ''tok'' @ replicate k CHR ''+'', expires_in = 43200\<rparr>)),
      transport =
        (\<lambda>k c. if k = 0 then (80, Inl (Some \<lparr>status = 401, detail = Some ''expired''\<rparr>))
                else (80, Inr ''DATA''))\<rparr>"

definition fresh_world :: "unit world" where
  "fresh_world = \<lparr>accessToken = None, tokenExpiresAt = 0, now = 1000, exchanges = 0, sent = []\<rparr>"

definition demo_config :: "unit config" where
  "demo_config =
     \<lparr>http_method = ''GET'', url = API_BASE_URL @ ''/images/'', params = None,
      timeout = TIMEOUT, headers = Map.empty\<rparr>"

definition audio_config :: "unit config" where
  "audio_config = demo_config\<lparr>url := API_BASE_URL @ ''/audio/''\<rparr>"


text \<open>An upstream that answers every request, in 80 ms, with the address requested.\<close>

definition media_upstream :: "(unit, string) upstream" where
  "media_upstream =
     \<lparr>tokenEndpoint = tokenEndpoint demo_upstream,
      transport = (\<lambda>k c. (80, Inr (url c)))\<rparr>"

text \<open>The promise of the first request made at 1120: rejected with 401 at 1200.\<close>

definition unauthorized :: "string promise" where
  "unauthorized = (1200, Inl (Some \<lparr>status = 401, detail = Some ''expired''\<rparr>))"

text \<open>
  Collaborators for the persistence layer and the controllers: an address is an email
  when it holds an \<^verbatim>\<open>@\<close>; hashing puts a mark in front of the first 72 bytes of the
  password (bcrypt reads no more) and comparing checks the mark and the rest; a token is
  \<^verbatim>\<open>jwt:\<close> followed by the user's id; a history id is \<^verbatim>\<open>h-\<close> or \<^verbatim>\<open>H-\<close> and one more
  character, kept as \<^verbatim>\<open>h-\<close> and that character. The store
  holds two users, Alice (active) and Bob (deactivated), and three history rows, two of
  Alice's and one of Bob's. The upstream answers an image search with 5 results on 2
  pages and an audio search with 3 results on 1 page.
\<close>

definition demo_env :: env where
  "demo_env =
     \<lparr>isEmail = (\<lambda>s. CHR ''@'' \<in> set s),
      bcrypt_genSalt = (\<lambda>rounds. ''salt''),
      bcrypt_hash = (\<lambda>p salt. CHR ''#'' # take 72 p),
      bcrypt_compare = (\<lambda>c h. h = CHR ''#'' # take 72 c),
      jwt_sign = (\<lambda>i. ''jwt:'' @ i),
      jwt_verify = (\<lambda>t. if take 4 t = ''jwt:'' then Decoded (drop 4 t) else JsonWebTokenError),
      uuidv4 = ''id-9'',
      uuid_in = (\<lambda>s. if length s = 3 \<and> (take 2 s = ''h-'' \<or> take 2 s = ''H-'')
                     then Some (''h-'' @ drop 2 s) else None),
      clock = 5000\<rparr>"

definition alice :: User where
  "alice = \<lparr>uid = ''id-1'', username = ''alice'', email = ''alice@example.org'',
            password = ''#wonderland'', firstName = Some ''Alice'', lastName = None,
            isActive = True, lastLogin = None, createdAt = 1000, updatedAt = 1000\<rparr>"

definition bob :: User where
  "bob = \<lparr>uid = ''id-2'', username = ''bob'', email = ''bob@example.org'',
          password = ''#builder'', firstName = None, lastName = None,
          isActive = False, lastLogin = None, createdAt = 2000, updatedAt = 2000\<rparr>"

definition row :: "string \<Rightarrow> string \<Rightarrow> string \<Rightarrow> int \<Rightarrow> SearchHistory" where
  "row i owner qry t =
     \<lparr>hid = i, userId = owner, query = qry, filters = [], mediaType = ''all'',
      resultCount = 8, h_createdAt = t, h_updatedAt = t\<rparr>"

definition demo_db :: db where
  "demo_db =
     \<lparr>users = [alice, bob],
      histories = [row ''h-1'' ''id-1'' ''cats'' 3000, row ''h-2'' ''id-2'' ''dogs'' 3500,
                   row ''h-3'' ''id-1'' ''owls'' 4000]\<rparr>"

definition demo_api :: "string api" where
  "demo_api =
     \<lparr>searchImages = (\<lambda>ps. Inr \<lparr>result_count = 5, page_count = 2, page_size = 20, page = 1,
                                 results = [''i1'', ''i2'', ''i3'', ''i4'', ''i5'']\<rparr>),
      searchAudio = (\<lambda>ps. Inr \<lparr>result_count = 3, page_count = 1, page_size = 20, page = 1,
                                results = [''a1'', ''a2'', ''a3'']\<rparr>)\<rparr>"

definition demo_query :: "string \<Rightarrow> search_query" where
  "demo_query mt =
     \<lparr>q_query = ''cats'', q_page = None, q_pageSize = None, q_mediaType = Some mt,
      q_filters = [(''licenseType'', ''commercial'')]\<rparr>"

definition anonymous :: request where
  "anonymous = \<lparr>req_authorization = None, req_user = None, req_token = None\<rparr>"

definition as_user :: "User \<Rightarrow> request" where
  "as_user u =
     \<lparr>req_authorization = Some (''Bearer jwt:'' @ uid u), req_user = Some u,
      req_token = Some (''jwt:'' @ uid u)\<rparr>"

definition newcomer :: "string \<Rightarrow> string \<Rightarrow> string \<Rightarrow> register_body" where
  "newcomer name mail pw =
     \<lparr>reg_username = name, reg_email = mail, reg_password = pw,
      reg_firstName = None, reg_lastName = None\<rparr>"

text \<open>
  A search for \<^verbatim>\<open>all\<close> media whose query has 300 characters, and the row of a new
  user Carol with a given stored password.
\<close>

definition long_query :: search_query where
  "long_query =
     \<lparr>q_query = replicate 300 CHR ''c'', q_page = None, q_pageSize = None,
      q_mediaType = Some ''all'', q_filters = []\<rparr>"


section \<open>Properties of the upstream client\<close>

lemma getAccessToken_sent: "sent (snd (getAccessToken up w)) = sent w"
  by (auto simp: getAccessToken_def exchangeToken_def split: option.splits prod.splits)

lemma getAccessToken_invalidated:
  "getAccessToken up (w\<lparr>accessToken := None\<rparr>) = exchangeToken up (w\<lparr>accessToken := None\<rparr>)"
  by (simp add: getAccessToken_def)

text \<open>
  C1. \<^verbatim>\<open>getAccessToken\<close> returns the cached token, and touches nothing, whenever a
  token is cached (the field holds a non-empty string) and the clock is strictly before
  the cached expiry. In every other state (no token, or the clock at or past the expiry)
  it makes exactly one token exchange and no other call; when the exchange succeeds it
  returns the new token and caches it with the expiry \<open>issue time + expires_in * 1000 -
  300000\<close>, the issue time being the clock when the response arrives, so that a second
  call at any time before that expiry returns the same token and makes no call; when the
  exchange is rejected it fails with \<open>AuthFailed\<close> and leaves the cache as it was.
\<close>

theorem getAccessToken_cached_or_one_exchange:
  "(accessToken w = Some tok \<and> tok \<noteq> [] \<and> now w < tokenExpiresAt w \<longrightarrow>
      getAccessToken up w = (Inr tok, w))
   \<and> ((accessToken w = None \<or> accessToken w = Some [] \<or> tokenExpiresAt w \<le> now w) \<longrightarrow>
        exchanges (snd (getAccessToken up w)) = Suc (exchanges w)
        \<and> sent (snd (getAccessToken up w)) = sent w
        \<and> now (snd (getAccessToken up w)) = now w + int (fst (tokenEndpoint up (exchanges w))))
   \<and> ((accessToken w = None \<or> accessToken w = Some [] \<or> tokenExpiresAt w \<le> now w)
        \<and> tokenEndpoint up (exchanges w) = (ms, Some r) \<longrightarrow>
        fst (getAccessToken up w) = Inr (access_token r)
        \<and> accessToken (snd (getAccessToken up w)) = Some (access_token r)
        \<and> tokenExpiresAt (snd (getAccessToken up w))
            = (now w + int ms) + expires_in r * 1000 - 300000
        \<and> (access_token r \<noteq> [] \<and> t < (now w + int ms) + expires_in r * 1000 - 300000 \<longrightarrow>
             getAccessToken up ((snd (getAccessToken up w))\<lparr>now := t\<rparr>)
               = (Inr (access_token r), (snd (getAccessToken up w))\<lparr>now := t\<rparr>)))
   \<and> ((accessToken w = None \<or> accessToken w = Some [] \<or> tokenExpiresAt w \<le> now w)
        \<and> tokenEndpoint up (exchanges w) = (ms, None) \<longrightarrow>
        fst (getAccessToken up w) = Inl AuthFailed
        \<and> accessToken (snd (getAccessToken up w)) = accessToken w
        \<and> tokenExpiresAt (snd (getAccessToken up w)) = tokenExpiresAt w)"
  by (cases "tokenEndpoint up (exchanges w)"; cases "snd (tokenEndpoint up (exchanges w))")
     (auto simp: getAccessToken_def exchangeToken_def split: option.splits prod.splits)

theorem getAccessToken_cached_or_one_exchange_witness:
  "getAccessToken demo_upstream fresh_world
     = (Inr ''tok'',
        \<lparr>accessToken = Some ''tok'', tokenExpiresAt = 42901120, now = 1120,
         exchanges = 1, sent = []\<rparr>)
   \<and> getAccessToken demo_upstream
        \<lparr>accessToken = Some ''tok'', tokenExpiresAt = 42901120, now = 42901119,
         exchanges = 1, sent = []\<rparr>
     = (Inr ''tok'',
        \<lparr>accessToken = Some ''tok'', tokenExpiresAt = 42901120, now = 42901119,
         exchanges = 1, sent = []\<rparr>)"
proof -
  let ?r = "\<lparr>access_token = ''tok'', expires_in = 43200\<rparr>"
  have first: "getAccessToken demo_upstream fresh_world
      = (Inr ''tok'',
         \<lparr>accessToken = Some ''tok'', tokenExpiresAt = 42901120, now = 1120,
          exchanges = 1, sent = []\<rparr>)"
    by (simp add: getAccessToken_def exchangeToken_def demo_upstream_def fresh_world_def)
  have endpoint: "tokenEndpoint demo_upstream (exchanges fresh_world) = (120, Some ?r)"
    by (simp add: demo_upstream_def fresh_world_def)
  have empty: "accessToken fresh_world = None"
    by (simp add: fresh_world_def)
  have clock: "now fresh_world = 1000"
    by (simp add: fresh_world_def)
  show ?thesis
    using getAccessToken_cached_or_one_exchange
      [of fresh_world "''tok''" demo_upstream 120 ?r 42901119] endpoint empty clock first
    by simp
qed

section \<open>Properties of the rate gate\<close>












section \<open>Properties of a request\<close>

text \<open>
  A request of a client that has no token yet, against the sample upstream. The token
  is fetched (1000 to 1120), the request fires at 1120 and is rejected with 401 at 1200;
  the token is cleared and fetched again (1200 to 1320), and the second call of
  \<^verbatim>\<open>throttledRequest\<close>, at 1320, falls inside the window that the first opened.
\<close>

lemma tryBlock_demo:
  "tryBlock demo_upstream demo_config (fresh_world, idle)
     = (Inl (AxiosError (Some \<lparr>status = 401, detail = Some ''expired''\<rparr>)),
        \<lparr>accessToken = Some ''tok'', tokenExpiresAt = 42901120, now = 1200, exchanges = 1,
         sent = [withBearer demo_config ''tok'']\<rparr>,
        \<lparr>cooldown = Cooldown 1120 unauthorized None,
         fired = [(1120, withBearer demo_config ''tok'')]\<rparr>)"
  by (simp add: tryBlock_def createAuthenticatedConfig_def getAccessToken_def
      exchangeToken_def throttledRequest_def throttled_def settle_def fire_def await_def
      demo_upstream_def fresh_world_def idle_def unauthorized_def)

lemma catchBlock_demo:
  "catchBlock demo_upstream demo_config
       (AxiosError (Some \<lparr>status = 401, detail = Some ''expired''\<rparr>))
       (\<lparr>accessToken = Some ''tok'', tokenExpiresAt = 42901120, now = 1200, exchanges = 1,
         sent = [withBearer demo_config ''tok'']\<rparr>,
        \<lparr>cooldown = Cooldown 1120 unauthorized None,
         fired = [(1120, withBearer demo_config ''tok'')]\<rparr>)
     = (Inl (AxiosError (Some \<lparr>status = 401, detail = Some ''expired''\<rparr>)),
        \<lparr>accessToken = Some ''tok+'', tokenExpiresAt = 42901320, now = 1320, exchanges = 2,
         sent = [withBearer demo_config ''tok'', withBearer demo_config ''tok+'']\<rparr>,
        \<lparr>cooldown = Cooldown 1120 unauthorized (Some (withBearer demo_config ''tok+'')),
         fired = [(1120, withBearer demo_config ''tok'')]\<rparr>)"
proof -
  have config: "createAuthenticatedConfig demo_upstream demo_config
      \<lparr>accessToken = None, tokenExpiresAt = 42901120, now = 1200, exchanges = Suc 0,
       sent = [withBearer demo_config ''tok'']\<rparr>
    = (Inr (withBearer demo_config ''tok+''),
       \<lparr>accessToken = Some ''tok+'', tokenExpiresAt = 42901320, now = 1320, exchanges = 2,
        sent = [withBearer demo_config ''tok'']\<rparr>)"
    by (simp add: createAuthenticatedConfig_def getAccessToken_def exchangeToken_def
        demo_upstream_def)
  show ?thesis
    by (simp add: catchBlock_def config throttledRequest_def throttled_def settle_def
        await_def WAIT_def unauthorized_def)
qed

lemma makeRequest_demo:
  "makeRequest demo_upstream demo_config (fresh_world, idle)
     = (Inl (AxiosError (Some \<lparr>status = 401, detail = Some ''expired''\<rparr>)),
        \<lparr>accessToken = Some ''tok+'', tokenExpiresAt = 42901320, now = 1320, exchanges = 2,
         sent = [withBearer demo_config ''tok'', withBearer demo_config ''tok+'']\<rparr>,
        \<lparr>cooldown = Cooldown 1120 unauthorized (Some (withBearer demo_config ''tok+'')),
         fired = [(1120, withBearer demo_config ''tok'')]\<rparr>)"
  unfolding makeRequest_def tryBlock_demo
  by (simp add: catchBlock_demo del: One_nat_def)

lemma authorization_withBearer:
  "headers (withBearer c tok) ''Authorization'' = Some (''Bearer '' @ tok)"
  by (simp add: withBearer_def)

text \<open>
  All requests of the client pass the one gate, so a request made within a second of
  the last one that fired is handed that one's response: an audio search made when an
  image search has just returned resolves to the image search's data. The two searches that
  \<^verbatim>\<open>searchMedia\<close> starts together for \<^verbatim>\<open>all\<close> are closer still.
\<close>

lemma images_then_audio:
  "makeRequest media_upstream demo_config (fresh_world, idle)
     = (Inr (API_BASE_URL @ ''/images/''),
        \<lparr>accessToken = Some ''tok'', tokenExpiresAt = 42901120, now = 1200, exchanges = 1,
         sent = [withBearer demo_config ''tok'']\<rparr>,
        \<lparr>cooldown = Cooldown 1120 (1200, Inr (API_BASE_URL @ ''/images/'')) None,
         fired = [(1120, withBearer demo_config ''tok'')]\<rparr>)"
  by (simp add: makeRequest_def tryBlock_def createAuthenticatedConfig_def getAccessToken_def
      exchangeToken_def throttledRequest_def throttled_def settle_def fire_def await_def
      media_upstream_def demo_upstream_def fresh_world_def idle_def demo_config_def
      withBearer_def)

lemma audio_search_handed_image_result:
  "fst (makeRequest media_upstream demo_config (fresh_world, idle))
     = Inr (API_BASE_URL @ ''/images/'')
   \<and> fst (makeRequest media_upstream audio_config
          (snd (makeRequest media_upstream demo_config (fresh_world, idle))))
     = Inr (API_BASE_URL @ ''/images/'')
   \<and> url audio_config = API_BASE_URL @ ''/audio/''"
  unfolding images_then_audio
  by (simp add: makeRequest_def tryBlock_def createAuthenticatedConfig_def getAccessToken_def
      throttledRequest_def throttled_def settle_def await_def WAIT_def audio_config_def)


text \<open>
  C2, at that request. The first response is 401; the client clears the token, fetches
  a new one and calls \<^verbatim>\<open>throttledRequest\<close> with it. That call does not fire: it is
  handed the promise of the first call, so \<^verbatim>\<open>makeRequest\<close> throws the first
  rejection again. When it returns, at 1320, one request has been made, with the old
  token. The request with the new token is made at the window boundary, 2120, and its
  response, which is data, reaches nobody.
\<close>

theorem makeRequest_retry_answered_with_first_rejection:
  "fst (makeRequest demo_upstream demo_config (fresh_world, idle))
     = Inl (AxiosError (Some \<lparr>status = 401, detail = Some ''expired''\<rparr>))
   \<and> accessToken (fst (snd (makeRequest demo_upstream demo_config (fresh_world, idle))))
     = Some ''tok+''
   \<and> exchanges (fst (snd (makeRequest demo_upstream demo_config (fresh_world, idle)))) = 2
   \<and> now (fst (snd (makeRequest demo_upstream demo_config (fresh_world, idle)))) = 1320
   \<and> authorizations (snd (snd (makeRequest demo_upstream demo_config (fresh_world, idle))))
     = [(1120, Some ''Bearer tok'')]
   \<and> authorizations (settle demo_upstream 2120
        (snd (snd (makeRequest demo_upstream demo_config (fresh_world, idle)))))
     = [(1120, Some ''Bearer tok''), (2120, Some ''Bearer tok+'')]
   \<and> transport demo_upstream 1 (withBearer demo_config ''tok+'') = (80, Inr ''DATA'')"
  unfolding makeRequest_demo
  by (simp add: authorizations_def settle_def fire_def WAIT_def authorization_withBearer
      demo_upstream_def)

section \<open>Properties of the search controller\<close>

lemma executeSearch_all_merges:
  assumes "mt \<noteq> ''image''" "mt \<noteq> ''audio''"
    and "searchImages a ps = Inr imageResults"
    and "searchAudio a ps = Inr audioResults"
  shows "executeSearch a mt pg pgSize ps
     = ([ImageSearch ps, AudioSearch ps],
        Inr (\<lparr>result_count = result_count imageResults + result_count audioResults,
              page_count = max (page_count imageResults) (page_count audioResults),
              page_size = pgSize, page = pg,
              results = results imageResults @ results audioResults\<rparr>,
             result_count imageResults + result_count audioResults))"
  using assms by (simp add: executeSearch_def Let_def)

text \<open>
  C3, at a search for \<^verbatim>\<open>all\<close> media by the authenticated user Alice with a query of
  300 characters. Both searches are made and succeed, with 5 results on 2 pages and 3
  results on 1 page; the history row is refused, because the query does not fit its
  column; the response is 500 and carries no result, and the store is as it was.
\<close>

theorem searchMedia_all_long_query_refused:
  "searchMedia demo_env demo_api demo_db [] long_query (as_user alice)
     = (\<lparr>statusCode = 500, json = Failure ''Search failed'' (StoreFailure ValueTooLong)\<rparr>,
        demo_db,
        [ImageSearch (buildSearchParams long_query), AudioSearch (buildSearchParams long_query)])
   \<and> q_mediaType long_query = Some ''all''
   \<and> length (q_query long_query) = 300
   \<and> searchImages demo_api (buildSearchParams long_query)
     = Inr \<lparr>result_count = 5, page_count = 2, page_size = 20, page = 1,
            results = [''i1'', ''i2'', ''i3'', ''i4'', ''i5'']\<rparr>
   \<and> searchAudio demo_api (buildSearchParams long_query)
     = Inr \<lparr>result_count = 3, page_count = 1, page_size = 20, page = 1,
            results = [''a1'', ''a2'', ''a3'']\<rparr>"
proof -
  have "searchMedia demo_env demo_api demo_db [] long_query (as_user alice)
     = (\<lparr>statusCode = 500, json = Failure ''Search failed'' (StoreFailure ValueTooLong)\<rparr>,
        demo_db,
        [ImageSearch (buildSearchParams long_query), AudioSearch (buildSearchParams long_query)])"
    by (simp add: searchMedia_def executeSearch_def orDefault_def SearchHistory_create_def
        mediaType_values_def long_query_def demo_api_def as_user_def Let_def)
  then show ?thesis
    by (simp add: long_query_def demo_api_def)
qed

text \<open>
  C10, at a search by the authenticated user Alice with the media type \<^verbatim>\<open>podcast\<close>.
  Both searches are made; the history row is refused, because the media type is not a
  value of its column; the response is 500 and the store is as it was.
\<close>

theorem searchMedia_unrecognised_mediaType_refused:
  "searchMedia demo_env demo_api demo_db [] (demo_query ''podcast'') (as_user alice)
     = (\<lparr>statusCode = 500, json = Failure ''Search failed'' (StoreFailure InvalidEnumValue)\<rparr>,
        demo_db,
        [ImageSearch (buildSearchParams (demo_query ''podcast'')),
         AudioSearch (buildSearchParams (demo_query ''podcast''))])"
  by (simp add: searchMedia_def executeSearch_def orDefault_def SearchHistory_create_def
      mediaType_values_def demo_query_def demo_api_def as_user_def Let_def)

section \<open>Properties of the search history\<close>

lemma find_owned_row:
  assumes "find (\<lambda>r. hid r = i \<and> userId r = owner) rows = Some item"
  shows "item \<in> set rows \<and> hid item = i \<and> userId item = owner"
  using assms by (auto simp: find_Some_iff)

lemma distinct_key_row:
  assumes "distinct (map hid rows)" "r \<in> set rows" "item \<in> set rows" "hid r = hid item"
  shows "r = item"
  using assms by (meson distinct_map inj_on_eq_iff)

text \<open>
  What the three history handlers do for an authenticated caller, when the ids of the
  history table are distinct: a delete removes no row but the caller's own row with the
  given id, a clear removes only rows of the caller, and a page holds only rows of the
  caller. A delete answers 404 for an id that no row of the caller has, and 500 for a
  text that is not an id; both leave the store as it was.
\<close>

lemma history_scoped_to_owner:
  assumes caller: "req_user req = Some u"
    and keys: "distinct (map hid (histories d))"
  shows "(\<forall>r \<in> set (histories d).
            r \<notin> set (histories (snd (deleteSearchHistoryItem e d req i :: 'a response \<times> db)))
            \<longrightarrow> userId r = uid u \<and> uuid_in e i = Some (hid r))
       \<and> set (histories (snd (deleteSearchHistoryItem e d req i :: 'a response \<times> db)))
            \<subseteq> set (histories d)
       \<and> users (snd (deleteSearchHistoryItem e d req i :: 'a response \<times> db)) = users d
       \<and> (uuid_in e i = Some i'
            \<and> (\<forall>r \<in> set (histories d). hid r = i' \<longrightarrow> userId r \<noteq> uid u) \<longrightarrow>
             (deleteSearchHistoryItem e d req i :: 'a response \<times> db)
               = (\<lparr>statusCode = 404, json = Message ''Search history item not found''\<rparr>, d))
       \<and> (uuid_in e i = None \<longrightarrow>
             (deleteSearchHistoryItem e d req i :: 'a response \<times> db)
               = (\<lparr>statusCode = 500,
                   json = Failure ''Failed to delete search history item''
                            (StoreFailure InvalidUuid)\<rparr>, d))
       \<and> (\<forall>r \<in> set (histories d).
            r \<notin> set (histories (snd (clearSearchHistory d req :: 'a response \<times> db)))
            \<longrightarrow> userId r = uid u)
       \<and> set (histories (snd (clearSearchHistory d req :: 'a response \<times> db)))
            \<subseteq> set (histories d)
       \<and> users (snd (clearSearchHistory d req :: 'a response \<times> db)) = users d
       \<and> (json (getSearchHistory d req pg pgSize :: 'a response)
             = HistoryPage cnt pageNum pageSizeNum pgs rows
           \<longrightarrow> (\<forall>r \<in> set rows. userId r = uid u \<and> r \<in> set (histories d)))"
proof -
  have del: "(\<forall>r \<in> set (histories d).
            r \<notin> set (histories (snd (deleteSearchHistoryItem e d req i :: 'a response \<times> db)))
            \<longrightarrow> userId r = uid u \<and> uuid_in e i = Some (hid r))"
  proof (cases "uuid_in e i")
    case None
    then show ?thesis using caller by (simp add: deleteSearchHistoryItem_def)
  next
    case (Some j)
    show ?thesis
    proof (cases "find (\<lambda>r. hid r = j \<and> userId r = uid u) (histories d)")
      case None
      then show ?thesis using caller Some by (simp add: deleteSearchHistoryItem_def)
    next
      case (Some item)
      note own = find_owned_row [OF Some]
      show ?thesis
      proof (intro ballI impI)
        fix r assume r: "r \<in> set (histories d)"
          and gone: "r \<notin> set (histories (snd (deleteSearchHistoryItem e d req i
                                                 :: 'a response \<times> db)))"
        from gone r have "hid r = hid item"
          using caller Some \<open>uuid_in e i = Some j\<close> by (simp add: deleteSearchHistoryItem_def)
        then have "r = item"
          using distinct_key_row [OF keys r] own by blast
        then show "userId r = uid u \<and> uuid_in e i = Some (hid r)"
          using own \<open>uuid_in e i = Some j\<close> by simp
      qed
    qed
  qed
  have del_sub: "set (histories (snd (deleteSearchHistoryItem e d req i :: 'a response \<times> db)))
            \<subseteq> set (histories d)"
    and del_users: "users (snd (deleteSearchHistoryItem e d req i :: 'a response \<times> db)) = users d"
    using caller by (auto simp: deleteSearchHistoryItem_def split: option.splits)
  have del_404: "(deleteSearchHistoryItem e d req i :: 'a response \<times> db)
        = (\<lparr>statusCode = 404, json = Message ''Search history item not found''\<rparr>, d)"
    if "uuid_in e i = Some i'" "\<forall>r \<in> set (histories d). hid r = i' \<longrightarrow> userId r \<noteq> uid u"
  proof -
    from that(2) have "find (\<lambda>r. hid r = i' \<and> userId r = uid u) (histories d) = None"
      by (auto simp: find_None_iff)
    then show ?thesis using caller that(1) by (simp add: deleteSearchHistoryItem_def)
  qed
  have del_500: "(deleteSearchHistoryItem e d req i :: 'a response \<times> db)
        = (\<lparr>statusCode = 500,
            json = Failure ''Failed to delete search history item''
                     (StoreFailure InvalidUuid)\<rparr>, d)"
    if "uuid_in e i = None"
    using caller that by (simp add: deleteSearchHistoryItem_def)
  have clr: "(\<forall>r \<in> set (histories d).
            r \<notin> set (histories (snd (clearSearchHistory d req :: 'a response \<times> db)))
            \<longrightarrow> userId r = uid u)"
    and clr_sub: "set (histories (snd (clearSearchHistory d req :: 'a response \<times> db)))
            \<subseteq> set (histories d)"
    and clr_users: "users (snd (clearSearchHistory d req :: 'a response \<times> db)) = users d"
    using caller by (auto simp: clearSearchHistory_def)
  have fetch: "\<forall>r \<in> set rows. userId r = uid u \<and> r \<in> set (histories d)"
    if "json (getSearchHistory d req pg pgSize :: 'a response)
          = HistoryPage cnt pageNum pageSizeNum pgs rows"
  proof -
    let ?ordered = "sort_key (\<lambda>r. - h_createdAt r) (filter (\<lambda>r. userId r = uid u) (histories d))"
    from that caller obtain m n where "rows = take m (drop n ?ordered)"
      by (auto simp: getSearchHistory_def Let_def split: if_splits)
    then have "set rows \<subseteq> set ?ordered"
      by (meson set_take_subset set_drop_subset subset_trans)
    then show ?thesis by auto
  qed
  show ?thesis
    using del del_sub del_users del_404 del_500 clr clr_sub clr_users fetch by blast
qed

text \<open>
  C4, at a delete by the authenticated user Alice with the id \<^verbatim>\<open>not-a-uuid\<close>. No row
  has that id, and the answer is 500, not 404. Nothing is deleted.
\<close>

theorem deleteSearchHistoryItem_malformed_id:
  "(deleteSearchHistoryItem demo_env demo_db (as_user alice) ''not-a-uuid''
      :: unit response \<times> db)
     = (\<lparr>statusCode = 500,
         json = Failure ''Failed to delete search history item'' (StoreFailure InvalidUuid)\<rparr>,
        demo_db)
   \<and> uuid_in demo_env ''not-a-uuid'' = None
   \<and> ''not-a-uuid'' \<notin> hid ` set (histories demo_db)"
  by (simp add: deleteSearchHistoryItem_def demo_env_def as_user_def demo_db_def row_def)

section \<open>Properties of the authentication controller\<close>

lemma toJSON_no_password: "''password'' \<notin> fst ` set (toJSON u)"
  by (auto simp: toJSON_def)

text \<open>A request that passed validation is answered with 500, whatever it holds.\<close>

lemma register_validated:
  "(register e d [] b :: 'a response \<times> db)
     = (\<lparr>statusCode = 500, json = Message ''Server error''\<rparr>, d)"
  by (simp add: register_def sequelize_Op_def)

text \<open>
  C5, at a registration with the email of the stored user Alice. The answer is 500
  \<^verbatim>\<open>Server error\<close>, not 400. No row is written.
\<close>

theorem register_duplicate_server_error:
  "(register demo_env demo_db [] (newcomer ''alice2'' ''alice@example.org'' ''secret'')
      :: unit response \<times> db)
     = (\<lparr>statusCode = 500, json = Message ''Server error''\<rparr>, demo_db)
   \<and> email alice = reg_email (newcomer ''alice2'' ''alice@example.org'' ''secret'')
   \<and> alice \<in> set (users demo_db)"
  by (simp add: register_def sequelize_Op_def demo_db_def alice_def newcomer_def)

text \<open>
  C9. The object \<^verbatim>\<open>toJSON\<close> returns has no \<^verbatim>\<open>password\<close> field, for every user; and
  whenever the response of \<^verbatim>\<open>register\<close>, \<^verbatim>\<open>login\<close> or \<^verbatim>\<open>getCurrentUser\<close> carries a
  user object, that object has no \<^verbatim>\<open>password\<close> field.
\<close>

theorem password_field_never_serialized:
  "''password'' \<notin> fst ` set (toJSON u)
   \<and> (bodyUser (json (fst (register e d errs b :: 'a response \<times> db))) = Some obj
        \<longrightarrow> ''password'' \<notin> fst ` set obj)
   \<and> (bodyUser (json (fst (login e d errs lb :: 'a response \<times> db))) = Some obj
        \<longrightarrow> ''password'' \<notin> fst ` set obj)
   \<and> (bodyUser (json (getCurrentUser req :: 'a response)) = Some obj
        \<longrightarrow> ''password'' \<notin> fst ` set obj)"
proof -
  have reg: "\<exists>u'. obj = toJSON u'"
    if "bodyUser (json (fst (register e d errs b :: 'a response \<times> db))) = Some obj"
    using that
    by (auto simp: register_def bodyUser_def Let_def
        split: if_splits option.splits sum.splits prod.splits)
  have log: "\<exists>u'. obj = toJSON u'"
    if "bodyUser (json (fst (login e d errs lb :: 'a response \<times> db))) = Some obj"
    using that
    by (auto simp: login_def bodyUser_def Let_def
        split: if_splits option.splits sum.splits prod.splits)
  have cur: "\<exists>u'. obj = toJSON u'"
    if "bodyUser (json (getCurrentUser req :: 'a response)) = Some obj"
    using that
    by (auto simp: getCurrentUser_def bodyUser_def split: option.splits)
  show ?thesis
    using reg log cur toJSON_no_password by blast
qed

theorem password_field_never_serialized_witness:
  "bodyUser (json (fst (login demo_env demo_db []
       \<lparr>login_email = ''alice@example.org'', login_password = ''wonderland''\<rparr>
         :: unit response \<times> db)))
     = Some [(''id'', JString ''id-1''), (''username'', JString ''alice''),
             (''email'', JString ''alice@example.org''), (''firstName'', JString ''Alice''),
             (''lastName'', JNull), (''isActive'', JBool True),
             (''lastLogin'', JDate 5000), (''createdAt'', JDate 1000),
             (''updatedAt'', JDate 5000)]
   \<and> ''password'' \<notin> fst ` set
         [(''id'', JString ''id-1''), (''username'', JString ''alice''),
          (''email'', JString ''alice@example.org''), (''firstName'', JString ''Alice''),
          (''lastName'', JNull), (''isActive'', JBool True),
          (''lastLogin'', JDate 5000), (''createdAt'', JDate 1000),
          (''updatedAt'', JDate 5000)]"
proof -
  let ?obj = "[(''id'', JString ''id-1''), (''username'', JString ''alice''),
             (''email'', JString ''alice@example.org''), (''firstName'', JString ''Alice''),
             (''lastName'', JNull), (''isActive'', JBool True),
             (''lastLogin'', JDate 5000), (''createdAt'', JDate 1000),
             (''updatedAt'', JDate 5000)]"
  have body: "bodyUser (json (fst (login demo_env demo_db []
       \<lparr>login_email = ''alice@example.org'', login_password = ''wonderland''\<rparr>
         :: unit response \<times> db))) = Some ?obj"
    by (simp add: login_def comparePassword_def User_update_def beforeUpdate_def
        lastLoginNow_def generateToken_def toJSON_def dataValues_def optional_def bodyUser_def
        demo_env_def demo_db_def alice_def bob_def Let_def)
  show ?thesis
    using password_field_never_serialized
      [of _ demo_env demo_db "[]" _ ?obj
          "\<lparr>login_email = ''alice@example.org'', login_password = ''wonderland''\<rparr>",
       where ?'a = unit] body
    by blast
qed

section \<open>Properties of password storage\<close>






section \<open>Properties of the authentication middleware\<close>

lemma split_nonempty: "split c xs \<noteq> []"
  by (induction xs) (auto split: list.splits)

lemma hd_split: "hd (split c xs) = takeWhile (\<lambda>x. x \<noteq> c) xs"
  by (induction xs) (auto split: list.splits simp: split_nonempty)

lemma bearer_token:
  assumes "startsWith h ''Bearer ''"
  shows "second (split CHR '' '' h) = Some (takeWhile (\<lambda>x. x \<noteq> CHR '' '') (drop 7 h))"
proof -
  have "length ''Bearer '' = 7"
    by simp
  with assms have "take 7 h = ''Bearer ''"
    by (simp only: startsWith_def)
  then have h: "h = ''Bearer '' @ drop 7 h"
    by (metis append_take_drop_id)
  obtain y ys where ys: "split CHR '' '' (drop 7 h) = y # ys"
    using split_nonempty by (cases "split CHR '' '' (drop 7 h)") auto
  have "split CHR '' '' h = ''Bearer'' # y # ys"
    by (subst h) (simp add: ys)
  moreover have "y = takeWhile (\<lambda>x. x \<noteq> CHR '' '') (drop 7 h)"
    using hd_split [of "CHR '' ''" "drop 7 h"] ys by simp
  ultimately show ?thesis
    by (simp add: second_def)
qed

text \<open>
  C7, as the code has it. \<^verbatim>\<open>authenticate\<close> answers 401 when there is no
  \<^verbatim>\<open>Authorization\<close> header, when the header does not start with \<^verbatim>\<open>Bearer \<close>, when the
  token (the text between \<^verbatim>\<open>Bearer \<close> and the next space) is empty, when the token
  does not verify, and when no user has the id the token names. It answers 403 when
  that user is deactivated. When the user exists and is active it attaches the user and
  the token to the request and passes it on. An exception other than a
  \<^verbatim>\<open>JsonWebTokenError\<close> gives 500.
\<close>

theorem authenticate_statuses:
  "(req_authorization req = None \<longrightarrow>
      (authenticate e d req :: 'a step) = reject 401 ''Authentication required'')
   \<and> (req_authorization req = Some h \<and> \<not> startsWith h ''Bearer '' \<longrightarrow>
      (authenticate e d req :: 'a step) = reject 401 ''Authentication required'')
   \<and> (req_authorization req = Some h \<and> startsWith h ''Bearer ''
        \<and> tok = takeWhile (\<lambda>x. x \<noteq> CHR '' '') (drop 7 h) \<longrightarrow>
        (tok = [] \<longrightarrow>
           (authenticate e d req :: 'a step) = reject 401 ''Invalid token format'')
      \<and> (tok \<noteq> [] \<and> jwt_verify e tok = JsonWebTokenError \<longrightarrow>
           (authenticate e d req :: 'a step) = reject 401 ''Invalid token'')
      \<and> (tok \<noteq> [] \<and> jwt_verify e tok = OtherException \<longrightarrow>
           (authenticate e d req :: 'a step) = reject 500 ''Authentication error'')
      \<and> (tok \<noteq> [] \<and> jwt_verify e tok = Decoded i \<and> findByPk d i = None \<longrightarrow>
           (authenticate e d req :: 'a step) = reject 401 ''User not found'')
      \<and> (tok \<noteq> [] \<and> jwt_verify e tok = Decoded i \<and> findByPk d i = Some u \<and> \<not> isActive u \<longrightarrow>
           (authenticate e d req :: 'a step) = reject 403 ''Account is disabled'')
      \<and> (tok \<noteq> [] \<and> jwt_verify e tok = Decoded i \<and> findByPk d i = Some u \<and> isActive u \<longrightarrow>
           (authenticate e d req :: 'a step)
             = Next (req\<lparr>req_user := Some u, req_token := Some tok\<rparr>)))"
proof -
  have missing: "(authenticate e d req :: 'a step) = reject 401 ''Authentication required''"
    if "req_authorization req = None"
    using that by (simp add: authenticate_def)
  have scheme: "(authenticate e d req :: 'a step) = reject 401 ''Authentication required''"
    if "req_authorization req = Some h" "\<not> startsWith h ''Bearer ''"
    using that by (simp add: authenticate_def)
  have bearer: "(authenticate e d req :: 'a step) =
      (if tok = [] then reject 401 ''Invalid token format''
       else (case jwt_verify e tok of
               JsonWebTokenError \<Rightarrow> reject 401 ''Invalid token''
             | OtherException \<Rightarrow> reject 500 ''Authentication error''
             | Decoded i \<Rightarrow>
                 (case findByPk d i of
                    None \<Rightarrow> reject 401 ''User not found''
                  | Some u \<Rightarrow>
                      if \<not> isActive u then reject 403 ''Account is disabled''
                      else Next (req\<lparr>req_user := Some u, req_token := Some tok\<rparr>))))"
    if h: "req_authorization req = Some h" "startsWith h ''Bearer ''"
      and tok: "tok = takeWhile (\<lambda>x. x \<noteq> CHR '' '') (drop 7 h)"
  proof -
    have "h \<noteq> []"
      using h(2) by (auto simp: startsWith_def)
    then show ?thesis
      unfolding authenticate_def tok using h bearer_token [OF h(2)] by simp
  qed
  have inner: "(tok = [] \<longrightarrow>
           (authenticate e d req :: 'a step) = reject 401 ''Invalid token format'')
      \<and> (tok \<noteq> [] \<and> jwt_verify e tok = JsonWebTokenError \<longrightarrow>
           (authenticate e d req :: 'a step) = reject 401 ''Invalid token'')
      \<and> (tok \<noteq> [] \<and> jwt_verify e tok = OtherException \<longrightarrow>
           (authenticate e d req :: 'a step) = reject 500 ''Authentication error'')
      \<and> (tok \<noteq> [] \<and> jwt_verify e tok = Decoded i \<and> findByPk d i = None \<longrightarrow>
           (authenticate e d req :: 'a step) = reject 401 ''User not found'')
      \<and> (tok \<noteq> [] \<and> jwt_verify e tok = Decoded i \<and> findByPk d i = Some u \<and> \<not> isActive u \<longrightarrow>
           (authenticate e d req :: 'a step) = reject 403 ''Account is disabled'')
      \<and> (tok \<noteq> [] \<and> jwt_verify e tok = Decoded i \<and> findByPk d i = Some u \<and> isActive u \<longrightarrow>
           (authenticate e d req :: 'a step)
             = Next (req\<lparr>req_user := Some u, req_token := Some tok\<rparr>))"
    if A: "req_authorization req = Some h" "startsWith h ''Bearer ''"
      "tok = takeWhile (\<lambda>x. x \<noteq> CHR '' '') (drop 7 h)"
    unfolding bearer [OF A] by simp
  show ?thesis
    using missing scheme inner by blast
qed

theorem authenticate_statuses_witness:
  "(authenticate demo_env demo_db
      \<lparr>req_authorization = Some ''Bearer jwt:id-1'', req_user = None, req_token = None\<rparr>
      :: unit step)
     = Next \<lparr>req_authorization = Some ''Bearer jwt:id-1'', req_user = Some alice,
             req_token = Some ''jwt:id-1''\<rparr>
   \<and> (authenticate demo_env demo_db
      \<lparr>req_authorization = Some ''Bearer jwt:id-2'', req_user = None, req_token = None\<rparr>
      :: unit step)
     = reject 403 ''Account is disabled''
   \<and> (authenticate demo_env demo_db
      \<lparr>req_authorization = Some ''Bearer jwt:id-7'', req_user = None, req_token = None\<rparr>
      :: unit step)
     = reject 401 ''User not found''
   \<and> (authenticate demo_env demo_db
      \<lparr>req_authorization = Some ''Basic abc'', req_user = None, req_token = None\<rparr>
      :: unit step)
     = reject 401 ''Authentication required''"
proof -
  let ?req = "\<lambda>h. \<lparr>req_authorization = Some h, req_user = None, req_token = None\<rparr>"
  have users: "findByPk demo_db ''id-1'' = Some alice" "findByPk demo_db ''id-2'' = Some bob"
    "findByPk demo_db ''id-7'' = None" "isActive alice" "\<not> isActive bob"
    by (simp_all add: findByPk_def demo_db_def alice_def bob_def)
  have verify: "jwt_verify demo_env ''jwt:id-1'' = Decoded ''id-1''"
    "jwt_verify demo_env ''jwt:id-2'' = Decoded ''id-2''"
    "jwt_verify demo_env ''jwt:id-7'' = Decoded ''id-7''"
    by (simp_all add: demo_env_def)
  have bearer: "startsWith ''Bearer jwt:id-1'' ''Bearer ''" "startsWith ''Bearer jwt:id-2'' ''Bearer ''"
    "startsWith ''Bearer jwt:id-7'' ''Bearer ''" "\<not> startsWith ''Basic abc'' ''Bearer ''"
    by (simp_all add: startsWith_def)
  have active: "(authenticate demo_env demo_db (?req ''Bearer jwt:id-1'') :: unit step)
      = Next \<lparr>req_authorization = Some ''Bearer jwt:id-1'', req_user = Some alice,
              req_token = Some ''jwt:id-1''\<rparr>"
    using authenticate_statuses
            [of "?req ''Bearer jwt:id-1''" demo_env demo_db "''Bearer jwt:id-1''"
                "''jwt:id-1''" "''id-1''" alice, where ?'a = unit]
          users(1,4) verify(1) bearer(1)
    by simp
  have disabled: "(authenticate demo_env demo_db (?req ''Bearer jwt:id-2'') :: unit step)
      = reject 403 ''Account is disabled''"
    using authenticate_statuses
            [of "?req ''Bearer jwt:id-2''" demo_env demo_db "''Bearer jwt:id-2''"
                "''jwt:id-2''" "''id-2''" bob, where ?'a = unit]
          users(2,5) verify(2) bearer(2)
    by simp
  have unknown: "(authenticate demo_env demo_db (?req ''Bearer jwt:id-7'') :: unit step)
      = reject 401 ''User not found''"
    using authenticate_statuses
            [of "?req ''Bearer jwt:id-7''" demo_env demo_db "''Bearer jwt:id-7''"
                "''jwt:id-7''" "''id-7''" alice, where ?'a = unit]
          users(3) verify(3) bearer(3)
    by simp
  have basic: "(authenticate demo_env demo_db (?req ''Basic abc'') :: unit step)
      = reject 401 ''Authentication required''"
    using authenticate_statuses
            [of "?req ''Basic abc''" demo_env demo_db "''Basic abc''"
                "''abc''" "''id-1''" alice, where ?'a = unit]
          bearer(4)
    by simp
  show ?thesis
    using active disabled unknown basic by (intro conjI)
qed

text \<open>
  A request with a valid token of the deactivated user Bob is answered with 403, not
  401.
\<close>

theorem authenticate_deactivated_counterexample:
  "(authenticate demo_env demo_db
      \<lparr>req_authorization = Some ''Bearer jwt:id-2'', req_user = None, req_token = None\<rparr>
      :: unit step)
     = Respond \<lparr>statusCode = 403, json = Message ''Account is disabled''\<rparr>"
proof -
  have bearer: "startsWith ''Bearer jwt:id-2'' ''Bearer ''"
    by (simp add: startsWith_def)
  have tok: "second (split CHR '' '' ''Bearer jwt:id-2'') = Some ''jwt:id-2''"
    using bearer_token [OF bearer] by simp
  have verify: "jwt_verify demo_env ''jwt:id-2'' = Decoded ''id-2''"
    by (simp add: demo_env_def)
  have found: "findByPk demo_db ''id-2'' = Some bob"
    by (simp add: findByPk_def demo_db_def alice_def bob_def)
  have disabled: "\<not> isActive bob"
    by (simp add: bob_def)
  show ?thesis
    by (simp add: authenticate_def bearer tok verify found disabled reject_def del: split.simps)
qed

end
